theory Spec2Isabelle
  imports Main
begin

chapter \<open>The program\<close>

section \<open>Attempt strategy (src/src/aws/attempt.go)\<close>

text \<open>
  \<^verbatim>\<open>time.Time\<close> and \<^verbatim>\<open>time.Duration\<close> belong to Go's standard library. A point in time is
  modelled as its distance in nanoseconds from a fixed origin and a duration as a number of
  nanoseconds, both as mathematical integers: \<^verbatim>\<open>t.Add(d)\<close> is \<open>t + d\<close>, \<^verbatim>\<open>t.Sub(u)\<close> is
  \<open>t - u\<close> and \<^verbatim>\<open>t.Before(u)\<close> is \<open>t < u\<close>. The fields \<^verbatim>\<open>last\<close>, \<^verbatim>\<open>end\<close> and \<^verbatim>\<open>Min\<close> of the source
  are called \<open>last_t\<close>, \<open>end_t\<close> and \<open>Min_tries\<close> here.
\<close>

type_synonym Time = int

type_synonym Duration = int

record AttemptStrategy =
  Total :: Duration
  Delay :: Duration
  Min_tries :: int

record Attempt =
  strategy :: AttemptStrategy
  last_t :: Time
  end_t :: Time
  force :: bool
  count :: int

text \<open>\<^verbatim>\<open>Start\<close> reads the clock once; the reading is the argument \<open>now\<close>.\<close>

definition Start :: "AttemptStrategy \<Rightarrow> Time \<Rightarrow> Attempt" where
  "Start self now =
     \<lparr>strategy = self, last_t = now, end_t = now + Total self, force = True, count = 0\<rparr>"

text \<open>
  Go computes \<^verbatim>\<open>self.strategy.Delay - now.Sub(self.last)\<close> in 64-bit integers, where the
  difference can wrap around for durations near the ends of the range; here it is the
  mathematical difference. Either way the result is clipped at 0, and the properties below use
  of it only that it is not negative.
\<close>

definition nextSleep :: "Attempt \<Rightarrow> Time \<Rightarrow> Duration" where
  "nextSleep self now =
     (let sleep = Delay (strategy self) - (now - last_t self)
      in if sleep < 0 then 0 else sleep)"

text \<open>
  \<^verbatim>\<open>Next\<close> reads the clock on entry (\<open>now\<close>) and, when it has slept, once more (\<open>woken\<close>).
  The clock is the environment's: both readings are arguments, and no relation between them
  is assumed. The result is the returned boolean and the updated attempt.
\<close>

definition Next :: "Attempt \<Rightarrow> Time \<Rightarrow> Time \<Rightarrow> bool \<times> Attempt" where
  "Next self now woken =
     (let sleep = nextSleep self now in
      if \<not> force self \<and> \<not> (now + sleep < end_t self)
           \<and> Min_tries (strategy self) \<le> count self
      then (False, self)
      else
        let s1 = self\<lparr>force := False\<rparr>;
            now' = (if sleep > 0 \<and> count s1 > 0 then woken else now)
        in (True, s1\<lparr>count := count s1 + 1, last_t := now'\<rparr>))"

text \<open>\<^verbatim>\<open>HasNext\<close> reads the clock only when neither shortcut applies.\<close>

definition HasNext :: "Attempt \<Rightarrow> Time \<Rightarrow> bool \<times> Attempt" where
  "HasNext self now =
     (if force self \<or> Min_tries (strategy self) > count self then (True, self)
      else if now + nextSleep self now < end_t self then (True, self\<lparr>force := True\<rparr>)
      else (False, self))"

text \<open>
  The strategy that the bucket operations share (\<^verbatim>\<open>var attempts\<close> in src/src/aws/s3/s3.go):
  at least five attempts, five seconds in total, 200 milliseconds apart.
\<close>

definition attempts :: AttemptStrategy where
  "attempts = \<lparr>Total = 5 * 1000000000, Delay = 200 * 1000000, Min_tries = 5\<rparr>"

text \<open>
  Consecutive calls of \<^verbatim>\<open>Next\<close> on one attempt, as the loops
  \<^verbatim>\<open>for attempt := attempts.Start(); attempt.Next(); { ... }\<close> make them, one pair of clock
  readings per call. The answers are collected in order.
\<close>

fun Next_calls :: "Attempt \<Rightarrow> (Time \<times> Time) list \<Rightarrow> bool list \<times> Attempt" where
  "Next_calls a [] = ([], a)"
| "Next_calls a (t # ts) =
     (let r = Next a (fst t) (snd t); rs = Next_calls (snd r) ts
      in (fst r # fst rs, snd rs))"

section \<open>Errors and HTTP values\<close>

text \<open>
  Modelled from the spec: the declaration of the type \<^verbatim>\<open>Error\<close> of package s3 is not among the
  sources. The spec's StructuredError has an HTTP status code, an error code, a message and
  an optional request id; src/src/aws/s3/s3.go names the first three \<^verbatim>\<open>StatusCode\<close>, \<^verbatim>\<open>Code\<close> and
  \<^verbatim>\<open>Message\<close>. The status code is called \<open>Error_StatusCode\<close> here, to keep it apart from
  the field of the HTTP response.
\<close>

record Error =
  Error_StatusCode :: int
  Code :: string
  Message :: string
  RequestId :: string

text \<open>
  A Go \<^verbatim>\<open>error\<close> value is some concrete type behind an interface. The constructors are the
  cases the code tells apart: the two sentinel values of package io, the types of package net
  that \<^verbatim>\<open>shouldRetry\<close> switches on, any other type that implements \<^verbatim>\<open>net.Error\<close>, the package's
  own \<^verbatim>\<open>*Error\<close>, the two errors \<^verbatim>\<open>prepare\<close> and \<^verbatim>\<open>url\<close> make with \<^verbatim>\<open>fmt.Errorf\<close>, and the rest.
  The flag of a network error is what its method \<^verbatim>\<open>Temporary()\<close> returns. A nil error is
  \<open>None\<close> of \<open>error option\<close>.
\<close>

datatype error =
    EOF
  | ErrUnexpectedEOF
  | DNSError bool
  | OpError string bool
  | NetError bool
  | S3Error Error
  | BadS3Bucket string
  | BadS3EndpointURL string error
  | OtherError string

text \<open>
  The type assertion \<^verbatim>\<open>err.(net.Error)\<close> followed by \<^verbatim>\<open>Temporary()\<close>: \<open>None\<close> when the
  assertion fails. \<^verbatim>\<open>*net.DNSError\<close> and \<^verbatim>\<open>*net.OpError\<close> implement \<^verbatim>\<open>net.Error\<close>.
\<close>

fun net_Error_Temporary :: "error \<Rightarrow> bool option" where
  "net_Error_Temporary (DNSError t) = Some t"
| "net_Error_Temporary (OpError op t) = Some t"
| "net_Error_Temporary (NetError t) = Some t"
| "net_Error_Temporary _ = None"

type_synonym Values = "string \<rightharpoonup> string list"

record URL =
  Scheme :: string
  Host :: string
  Path :: string
  RawQuery :: string

record http_Request =
  URL :: URL
  Method :: string
  Header :: Values
  ContentLength :: int
  Body_req :: "string option"

record Response =
  StatusCode :: int
  Status :: string
  Body :: string

section \<open>The default retry policy of the transport (src/aws/client.go)\<close>

definition awsRetry :: "http_Request \<Rightarrow> Response option \<Rightarrow> error option \<Rightarrow> bool" where
  "awsRetry req res err =
     (let retry = False;
          retry = (if err = None \<and> res \<noteq> None then False else retry);
          retry = (case err of
                     None \<Rightarrow> retry
                   | Some e \<Rightarrow> (case net_Error_Temporary e of
                                 None \<Rightarrow> retry
                               | Some temporary \<Rightarrow> if temporary then True else retry));
          retry = (case res of
                     None \<Rightarrow> retry
                   | Some r \<Rightarrow> if 500 \<le> StatusCode r \<and> StatusCode r < 600 then True else retry)
      in retry)"

section \<open>The retry classifier of the bucket operations (src/src/aws/s3/s3.go)\<close>

text \<open>
  The first \<^verbatim>\<open>switch\<close> compares the error with the two sentinel values, the second switches
  on its dynamic type. An \<^verbatim>\<open>*net.OpError\<close> with another \<^verbatim>\<open>Op\<close>, and an \<^verbatim>\<open>*Error\<close> with another
  code, leave their inner \<^verbatim>\<open>switch\<close> and reach the final \<^verbatim>\<open>return false\<close>.
\<close>

fun shouldRetry :: "error option \<Rightarrow> bool" where
  "shouldRetry None = False"
| "shouldRetry (Some ErrUnexpectedEOF) = True"
| "shouldRetry (Some EOF) = True"
| "shouldRetry (Some (DNSError t)) = True"
| "shouldRetry (Some (OpError op t)) = (op = ''read'' \<or> op = ''write'')"
| "shouldRetry (Some (S3Error e)) =
     (Code e = ''InternalError'' \<or> Code e = ''NoSuchUpload'' \<or> Code e = ''NoSuchBucket'')"
| "shouldRetry (Some _) = False"

definition hasCode :: "error option \<Rightarrow> string \<Rightarrow> bool" where
  "hasCode err code = (case err of Some (S3Error s3err) \<Rightarrow> Code s3err = code | _ \<Rightarrow> False)"

section \<open>The resilient transport\<close>

text \<open>
  What the calls of a transport leave behind: how many times the underlying HTTP transport
  has been executed, how many response bodies have been closed, and the arguments of the
  calls of \<^verbatim>\<open>Wait\<close>, in order.
\<close>

record effects =
  executions :: nat
  closed :: nat
  waits :: "int list"

text \<open>
  \<^verbatim>\<open>ShouldRetry\<close> is a function value of the code. \<^verbatim>\<open>Wait\<close> may be nil (\<open>None\<close>); what a wait
  function returns here is the time it sleeps. \<^verbatim>\<open>Deadline\<close> maps the clock reading to the
  deadline. The field \<^verbatim>\<open>transport\<close> is the underlying \<^verbatim>\<open>*http.Transport\<close>: the network decides
  what each execution returns, so \<open>transport self k request\<close> is the result of the
  execution number \<open>k\<close> (from 0) of \<^verbatim>\<open>self.transport.RoundTrip(request)\<close>.
\<close>

record ResilientTransport =
  DialTimeout :: Duration
  MaxTries :: int
  Deadline :: "Time \<Rightarrow> Time"
  ShouldRetry :: "http_Request \<Rightarrow> Response option \<Rightarrow> error option \<Rightarrow> bool"
  Wait :: "(int \<Rightarrow> Duration) option"
  transport :: "nat \<Rightarrow> http_Request \<Rightarrow> Response option \<times> error option"

definition LinearBackoff :: "int \<Rightarrow> Duration" where
  "LinearBackoff try = (try * 100) * 1000000"

subsection \<open>\<^verbatim>\<open>tries\<close> as in src/unnamed/part_002\<close>

text \<open>
  The loop \<^verbatim>\<open>for try := 0; try < self.MaxTries; try++\<close>, with the loop variable and the two
  results \<^verbatim>\<open>response\<close> and \<^verbatim>\<open>error\<close> as arguments. The body executes the underlying transport.
\<close>

function tries_loop ::
  "ResilientTransport \<Rightarrow> http_Request \<Rightarrow> int \<Rightarrow> Response option \<times> error option \<Rightarrow> effects
   \<Rightarrow> (Response option \<times> error option) \<times> effects" where
  "tries_loop self request try prev w =
     (if try < MaxTries self then
        let r = transport self (executions w) request;
            w1 = w\<lparr>executions := executions w + 1\<rparr>
        in if \<not> ShouldRetry self request (fst r) (snd r) then (r, w1)
           else
             let w2 = (if fst r \<noteq> None then w1\<lparr>closed := closed w1 + 1\<rparr> else w1);
                 w3 = (if Wait self \<noteq> None then w2\<lparr>waits := waits w2 @ [try]\<rparr> else w2)
             in tries_loop self request (try + 1) r w3
      else (prev, w))"
  by pat_completeness auto
termination
  by (relation "measure (\<lambda>(self, request, try, prev, w). nat (MaxTries self - try))") auto

declare tries_loop.simps [simp del]

definition tries ::
  "ResilientTransport \<Rightarrow> http_Request \<Rightarrow> effects \<Rightarrow> (Response option \<times> error option) \<times> effects" where
  "tries self request w = tries_loop self request 0 (None, None) w"

definition RoundTrip ::
  "ResilientTransport \<Rightarrow> http_Request \<Rightarrow> effects \<Rightarrow> (Response option \<times> error option) \<times> effects" where
  "RoundTrip self request w = tries self request w"

subsection \<open>\<^verbatim>\<open>tries\<close> as in src/aws/resilient_transport.go\<close>

text \<open>
  In this copy the body of the loop calls \<^verbatim>\<open>self.RoundTrip(req)\<close>, and \<^verbatim>\<open>RoundTrip\<close> is
  \<^verbatim>\<open>return self.tries(req)\<close>: the loop calls itself from the start. The call of \<^verbatim>\<open>RoundTrip\<close> is
  written as what it is, \<open>tries_self_loop\<close> at \<^verbatim>\<open>try\<close> 0 with nil results. The function may not
  return; not returning is the value \<open>None\<close>.
\<close>

partial_function (option) tries_self_loop ::
  "ResilientTransport \<Rightarrow> http_Request \<Rightarrow> int \<Rightarrow> Response option \<times> error option \<Rightarrow> effects
   \<Rightarrow> ((Response option \<times> error option) \<times> effects) option" where
  "tries_self_loop self req try prev w =
     (if try < MaxTries self then
        Option.bind (tries_self_loop self req 0 (None, None) w) (\<lambda>rw.
          let r = fst rw; w1 = snd rw
          in if \<not> ShouldRetry self req (fst r) (snd r) then Some (r, w1)
             else
               let w2 = (if fst r \<noteq> None then w1\<lparr>closed := closed w1 + 1\<rparr> else w1);
                   w3 = (if Wait self \<noteq> None then w2\<lparr>waits := waits w2 @ [try]\<rparr> else w2)
               in tries_self_loop self req (try + 1) r w3)
      else Some (prev, w))"

definition tries_self ::
  "ResilientTransport \<Rightarrow> http_Request \<Rightarrow> effects
   \<Rightarrow> ((Response option \<times> error option) \<times> effects) option" where
  "tries_self self req w = tries_self_loop self req 0 (None, None) w"

definition RoundTrip_self ::
  "ResilientTransport \<Rightarrow> http_Request \<Rightarrow> effects
   \<Rightarrow> ((Response option \<times> error option) \<times> effects) option" where
  "RoundTrip_self self req w = tries_self self req w"

subsection \<open>A concrete transport\<close>

text \<open>
  A transport with the settings of \<^verbatim>\<open>retryingTransport\<close>, a retry predicate that always answers
  true, linear backoff, and a network whose execution number \<open>k\<close> answers with status
  \<open>500 + k\<close>.
\<close>

definition always_retrying :: ResilientTransport where
  "always_retrying =
     \<lparr>DialTimeout = 10 * 1000000000,
      MaxTries = 3,
      Deadline = (\<lambda>now. now + 5 * 1000000000),
      ShouldRetry = (\<lambda>req res err. True),
      Wait = Some LinearBackoff,
      transport = (\<lambda>k req. (Some \<lparr>StatusCode = 500 + int k, Status = '''', Body = ''''\<rparr>, None))\<rparr>"

definition get_example :: http_Request where
  "get_example =
     \<lparr>URL = \<lparr>Scheme = ''https'', Host = ''s3.amazonaws.com'', Path = ''/example/key'',
             RawQuery = ''''\<rparr>,
      Method = ''GET'', Header = Map.empty, ContentLength = 0, Body_req = None\<rparr>"

section \<open>Resolving and signing a request (src/src/aws/s3/s3.go)\<close>

record Auth =
  AccessKey :: string
  SecretKey :: string
  Token :: string

record Region =
  Name :: string
  EC2Endpoint :: string
  S3Endpoint :: string
  S3BucketEndpoint :: string
  S3LocationConstraint :: bool
  S3LowercaseBucket :: bool
  SDBEndpoint :: string
  SNSEndpoint :: string
  SQSEndpoint :: string
  IAMEndpoint :: string

record S3 =
  Auth :: Auth
  Region :: Region

text \<open>
  The request descriptor. \<^verbatim>\<open>params\<close> and \<^verbatim>\<open>headers\<close> are Go maps from a key to a list of values;
  a nil map and an empty map are both \<open>Map.empty\<close>. The payload is an \<^verbatim>\<open>io.Reader\<close>, here the
  bytes it yields, or \<open>None\<close> for nil. The field \<^verbatim>\<open>method\<close> is called \<open>method_r\<close>.
\<close>

record request =
  method_r :: string
  bucket :: string
  path :: string
  signpath :: string
  params :: Values
  headers :: Values
  baseurl :: string
  payload :: "string option"
  prepared :: bool

text \<open>
  What the code calls and the sources do not hold. \<^verbatim>\<open>url.Parse\<close>, \<^verbatim>\<open>url.Values.Encode\<close>,
  \<^verbatim>\<open>strconv.ParseInt\<close> and the XML decoder belong to Go's standard library. \<^verbatim>\<open>sign\<close> is a
  function of package s3 whose file is not among the sources: it receives the two maps by
  reference and may write to both, so here it returns both. All of them are parameters.
  \<^item> \<open>url_Parse s\<close> is the parsed URL, or the error of the parser;
  \<^item> \<open>sign auth method signpath params headers\<close> is the pair of maps that \<^verbatim>\<open>sign\<close> leaves;
  \<^item> \<open>Values_Encode\<close> is \<^verbatim>\<open>params.Encode()\<close>;
  \<^item> \<open>ParseInt s\<close> is the number \<^verbatim>\<open>strconv.ParseInt(s, 10, 64)\<close> returns (\<^verbatim>\<open>run\<close> drops its error);
  \<^item> \<open>xml_Decode_Error body\<close> is the \<^verbatim>\<open>Error\<close> that decoding \<open>body\<close> into a zero \<^verbatim>\<open>Error\<close>
    leaves (\<^verbatim>\<open>buildError\<close> drops the decoder's error);
  \<^item> \<open>xml_Decode body\<close> is the error of decoding \<open>body\<close> into the caller's result.
\<close>

record lib =
  url_Parse :: "string \<Rightarrow> error + URL"
  sign :: "Auth \<Rightarrow> string \<Rightarrow> string \<Rightarrow> Values \<Rightarrow> Values \<Rightarrow> Values \<times> Values"
  Values_Encode :: "Values \<Rightarrow> string"
  ParseInt :: "string \<Rightarrow> int"
  xml_Decode_Error :: "string \<Rightarrow> Error"
  xml_Decode :: "string \<Rightarrow> error option"

subsection \<open>The functions of package strings that \<^verbatim>\<open>prepare\<close> uses\<close>

definition strings_HasPrefix :: "string \<Rightarrow> string \<Rightarrow> bool" where
  "strings_HasPrefix s pre = (take (length pre) s = pre)"

text \<open>The index of the first byte of \<open>s\<close> that occurs in \<open>chars\<close>, or -1.\<close>

fun strings_IndexAny :: "string \<Rightarrow> string \<Rightarrow> int" where
  "strings_IndexAny [] chars = - 1"
| "strings_IndexAny (c # s) chars =
     (if c \<in> set chars then 0
      else let i = strings_IndexAny s chars in if i < 0 then - 1 else i + 1)"

text \<open>
  \<^verbatim>\<open>strings.Replace(s, old, new, -1)\<close>: every occurrence of \<open>old\<close>, from the left and without
  overlap. For an empty \<open>old\<close> Go inserts \<open>new\<close> before every UTF-8 sequence and at the end;
  the model does so byte by byte. The only call has \<open>old\<close> \<^verbatim>\<open>${bucket}\<close>.
\<close>

function strings_Replace_all :: "string \<Rightarrow> string \<Rightarrow> string \<Rightarrow> string" where
  "strings_Replace_all s old new =
     (if old = [] then new @ concat (map (\<lambda>c. c # new) s)
      else if s = [] then []
      else if take (length old) s = old
        then new @ strings_Replace_all (drop (length old) s) old new
      else hd s # strings_Replace_all (tl s) old new)"
  by pat_completeness auto
termination
  by (relation "measure (\<lambda>(s, old, new). length s)") auto

declare strings_Replace_all.simps [simp del]

subsection \<open>\<^verbatim>\<open>prepare\<close>\<close>

text \<open>
  The path with a slash in front when it has none (the first rewriting of \<^verbatim>\<open>req.path\<close>).
\<close>

definition slashed :: "string \<Rightarrow> string" where
  "slashed p = (if \<not> strings_HasPrefix p ''/'' then ''/'' @ p else p)"

text \<open>
  The block guarded by \<^verbatim>\<open>if !req.prepared\<close>, statement by statement. Copying the two maps
  leaves their contents as they are. The result is the descriptor and the error with which
  the block returns from \<^verbatim>\<open>prepare\<close>, if it does.
\<close>

definition prepare_first :: "S3 \<Rightarrow> request \<Rightarrow> request \<times> error option" where
  "prepare_first self req0 =
     (let req = req0\<lparr>prepared := True\<rparr>;
          req = (if method_r req = '''' then req\<lparr>method_r := ''GET''\<rparr> else req);
          req = req\<lparr>params := params req, headers := headers req\<rparr>;
          req = req\<lparr>path := slashed (path req)\<rparr>;
          req = req\<lparr>signpath := path req\<rparr>
      in if bucket req \<noteq> '''' then
           let req = req\<lparr>baseurl := S3BucketEndpoint (Region self)\<rparr> in
           if baseurl req = '''' then
             let req = req\<lparr>baseurl := S3Endpoint (Region self)\<rparr>;
                 req = req\<lparr>path := ''/'' @ bucket req @ path req\<rparr>
             in (req\<lparr>signpath := ''/'' @ bucket req @ signpath req\<rparr>, None)
           else if strings_IndexAny (bucket req) ''/:@'' \<ge> 0 then
             (req, Some (BadS3Bucket (bucket req)))
           else
             let req = req\<lparr>baseurl :=
                   strings_Replace_all (baseurl req) ''${bucket}'' (bucket req)\<rparr>
             in (req\<lparr>signpath := ''/'' @ bucket req @ signpath req\<rparr>, None)
         else (req, None))"

text \<open>
  \<^verbatim>\<open>prepare\<close>. \<open>date\<close> is the clock reading of the call, formatted:
  \<^verbatim>\<open>time.Now().In(time.UTC).Format(time.RFC1123)\<close>. The result is the descriptor as the call
  leaves it and the returned error.
\<close>

definition prepare :: "lib \<Rightarrow> S3 \<Rightarrow> string \<Rightarrow> request \<Rightarrow> request \<times> error option" where
  "prepare lb self date req0 =
     (let r = (if \<not> prepared req0 then prepare_first self req0 else (req0, None));
          req = fst r
      in case snd r of
           Some e \<Rightarrow> (req, Some e)
         | None \<Rightarrow>
             (case url_Parse lb (baseurl req) of
                Inl err \<Rightarrow> (req, Some (BadS3EndpointURL (baseurl req) err))
              | Inr u \<Rightarrow>
                  let hs = (headers req)(''Host'' \<mapsto> [Host u]);
                      hs = hs(''Date'' \<mapsto> [date]);
                      signed = sign lb (Auth self) (method_r req) (signpath req) (params req) hs
                  in (req\<lparr>params := fst signed, headers := snd signed\<rparr>, None)))"

subsection \<open>Concrete values\<close>

text \<open>The region \<^verbatim>\<open>USEast\<close> of src/unnamed/part_003; its bucket endpoint is empty.\<close>

definition USEast :: Region where
  "USEast =
     \<lparr>Name = ''us-east-1'',
      EC2Endpoint = ''https://ec2.us-east-1.amazonaws.com'',
      S3Endpoint = ''https://s3.amazonaws.com'',
      S3BucketEndpoint = '''',
      S3LocationConstraint = False,
      S3LowercaseBucket = False,
      SDBEndpoint = ''https://sdb.amazonaws.com'',
      SNSEndpoint = ''https://sns.us-east-1.amazonaws.com'',
      SQSEndpoint = ''https://sqs.us-east-1.amazonaws.com'',
      IAMEndpoint = ''https://iam.amazonaws.com''\<rparr>"

text \<open>
  No region of the table has a bucket endpoint. For virtual-hosted addressing the examples use
  \<^verbatim>\<open>USEast\<close> with the template \<^verbatim>\<open>https://${bucket}.s3.amazonaws.com\<close>.
\<close>

definition USEast_hosted :: Region where
  "USEast_hosted = USEast\<lparr>S3BucketEndpoint := ''https://${bucket}.s3.amazonaws.com''\<rparr>"

definition example_auth :: Auth where
  "example_auth = \<lparr>AccessKey = ''AKIDEXAMPLE'', SecretKey = ''secret'', Token = ''''\<rparr>"

text \<open>
  Stand-ins for the parameters, to run the functions on concrete requests: a parser that
  accepts an \<^verbatim>\<open>https://\<close> URL and takes what follows the scheme as the host, a signer that
  writes an \<^verbatim>\<open>Authorization\<close> header from the access key, the signable path and the date,
  and trivial decoders.
\<close>

definition example_lib :: lib where
  "example_lib =
     \<lparr>url_Parse = (\<lambda>s. if take 8 s = ''https://''
                       then Inr \<lparr>Scheme = ''https'', Host = drop 8 s, Path = '''', RawQuery = ''''\<rparr>
                       else Inl (OtherError ''parse'')),
      sign = (\<lambda>auth m sp ps hs.
                (ps, hs(''Authorization'' \<mapsto>
                   [''AWS '' @ AccessKey auth @ '':'' @ sp @ concat (case hs ''Date'' of None \<Rightarrow> [] | Some d \<Rightarrow> d)]))),
      Values_Encode = (\<lambda>ps. ''''),
      ParseInt = (\<lambda>s. 0),
      xml_Decode_Error = (\<lambda>body. \<lparr>Error_StatusCode = 0, Code = body, Message = '''', RequestId = ''''\<rparr>),
      xml_Decode = (\<lambda>body. None)\<rparr>"

text \<open>The descriptor that \<^verbatim>\<open>GetResponse\<close> builds for a bucket and a path.\<close>

definition get_request :: "string \<Rightarrow> string \<Rightarrow> request" where
  "get_request name p =
     \<lparr>method_r = '''', bucket = name, path = p, signpath = '''', params = Map.empty,
      headers = Map.empty, baseurl = '''', payload = None, prepared = False\<rparr>"

definition example_s3 :: S3 where
  "example_s3 = \<lparr>Auth = example_auth, Region = USEast\<rparr>"

definition example_s3_hosted :: S3 where
  "example_s3_hosted = \<lparr>Auth = example_auth, Region = USEast_hosted\<rparr>"

section \<open>Running a request and decoding the answer (src/src/aws/s3/s3.go)\<close>

text \<open>The two ways the code modelled here can panic.\<close>

datatype panic = IndexOutOfRange | Unreachable

text \<open>\<^verbatim>\<open>request.url\<close> (src/unnamed/part_000).\<close>

definition url :: "lib \<Rightarrow> request \<Rightarrow> error + URL" where
  "url lb self =
     (case url_Parse lb (baseurl self) of
        Inl err \<Rightarrow> Inl (BadS3EndpointURL (baseurl self) err)
      | Inr u \<Rightarrow> Inr (u\<lparr>RawQuery := Values_Encode lb (params self), Path := path self\<rparr>))"

text \<open>
  \<^verbatim>\<open>buildError\<close>, with the constant \<^verbatim>\<open>debug\<close> false as the source has it: the body is decoded
  into a zero \<^verbatim>\<open>Error\<close>, the decoder's own error is dropped, then the status code is written
  and an empty message is replaced by the status line.
\<close>

definition buildError :: "lib \<Rightarrow> Response \<Rightarrow> Error" where
  "buildError lb r =
     (let err = xml_Decode_Error lb (Body r);
          err = err\<lparr>Error_StatusCode := StatusCode r\<rparr>;
          err = (if Message err = '''' then err\<lparr>Message := Status r\<rparr> else err)
      in err)"

text \<open>
  The part of \<^verbatim>\<open>run\<close> between \<^verbatim>\<open>req.url()\<close> and \<^verbatim>\<open>http.DefaultClient.Do\<close>: the HTTP request
  that is sent and the descriptor as this part leaves it. \<^verbatim>\<open>hreq.Header\<close> is the map
  \<^verbatim>\<open>req.headers\<close> itself, so deleting \<^verbatim>\<open>Content-Length\<close> from the one deletes it from the
  other. \<^verbatim>\<open>v[0]\<close> on a header without values panics.
\<close>

definition run_request :: "lib \<Rightarrow> request \<Rightarrow> URL \<Rightarrow> panic + (http_Request \<times> request)" where
  "run_request lb req u =
     (let hreq = \<lparr>URL = u, Method = method_r req, Header = headers req,
                  ContentLength = 0, Body_req = None\<rparr>
      in case headers req ''Content-Length'' of
           None \<Rightarrow> Inr (hreq\<lparr>Body_req := payload req\<rparr>, req)
         | Some [] \<Rightarrow> Inl IndexOutOfRange
         | Some (v0 # vs) \<Rightarrow>
             let deleted = (headers req)(''Content-Length'' := None)
             in Inr (hreq\<lparr>ContentLength := ParseInt lb v0, Header := deleted,
                          Body_req := payload req\<rparr>,
                     req\<lparr>headers := deleted\<rparr>))"

text \<open>
  \<^verbatim>\<open>run\<close>. \<open>Do\<close> is what \<^verbatim>\<open>http.DefaultClient.Do\<close> answers to the request sent: the network
  decides it. \<open>resp_given\<close> says that the caller's \<^verbatim>\<open>resp\<close> is not nil. The result is a panic,
  or the descriptor as the call leaves it with the two returned values.
\<close>

definition run ::
  "lib \<Rightarrow> (http_Request \<Rightarrow> error + Response) \<Rightarrow> S3 \<Rightarrow> request \<Rightarrow> bool
   \<Rightarrow> panic + (request \<times> Response option \<times> error option)" where
  "run lb Do self req resp_given =
     (case url lb req of
        Inl err \<Rightarrow> Inr (req, None, Some err)
      | Inr u \<Rightarrow>
          (case run_request lb req u of
             Inl p \<Rightarrow> Inl p
           | Inr sent \<Rightarrow>
               (case Do (fst sent) of
                  Inl err \<Rightarrow> Inr (snd sent, None, Some err)
                | Inr hresp \<Rightarrow>
                    if StatusCode hresp \<noteq> 200 \<and> StatusCode hresp \<noteq> 204
                    then Inr (snd sent, None, Some (S3Error (buildError lb hresp)))
                    else if resp_given
                    then Inr (snd sent, Some hresp, xml_Decode lb (Body hresp))
                    else Inr (snd sent, Some hresp, None))))"



section \<open>\<^verbatim>\<open>Bucket.GetResponse\<close> (src/unnamed/part_001)\<close>

text \<open>
  The embedded \<^verbatim>\<open>*S3\<close> and the name; the fields are called \<open>Bucket_S3\<close> and \<open>Bucket_Name\<close>.
\<close>

record Bucket =
  Bucket_S3 :: S3
  Bucket_Name :: string

text \<open>
  What the environment contributes to one round of the attempt loop: the clock readings of
  \<^verbatim>\<open>Next\<close> (on entry and after its sleep), the answer of the network to the request, and the
  clock reading of \<^verbatim>\<open>HasNext\<close>.
\<close>

record round =
  Next_now :: Time
  Next_woken :: Time
  Do_answer :: "http_Request \<Rightarrow> error + Response"
  HasNext_now :: Time

text \<open>
  How \<^verbatim>\<open>GetResponse\<close> ends: it returns its two values, or it panics, or it is still in its loop
  when the rounds listed are used up.
\<close>

datatype outcome =
    Returned "Response option" "error option"
  | Panicked panic
  | Running

text \<open>
  The loop \<^verbatim>\<open>for attempt := attempts.Start(); attempt.Next(); { ... }\<close> from a given attempt.
  When \<^verbatim>\<open>Next\<close> answers false the loop is left and \<^verbatim>\<open>panic("unreachable")\<close> follows. \<^verbatim>\<open>HasNext\<close>
  is called only when \<^verbatim>\<open>shouldRetry\<close> answered true, as \<^verbatim>\<open>&&\<close> has it.
\<close>

fun GetResponse_loop :: "lib \<Rightarrow> S3 \<Rightarrow> request \<Rightarrow> Attempt \<Rightarrow> round list \<Rightarrow> outcome" where
  "GetResponse_loop lb self req attempt [] = Running"
| "GetResponse_loop lb self req attempt (r # rs) =
     (let n = Next attempt (Next_now r) (Next_woken r) in
      if \<not> fst n then Panicked Unreachable
      else
        (case run lb (Do_answer r) self req False of
           Inl p \<Rightarrow> Panicked p
         | Inr (req', resp, err) \<Rightarrow>
             let h = (if shouldRetry err then HasNext (snd n) (HasNext_now r)
                      else (False, snd n))
             in if shouldRetry err \<and> fst h then GetResponse_loop lb self req' (snd h) rs
                else if err \<noteq> None then Returned None err
                else Returned resp None))"

text \<open>
  \<^verbatim>\<open>GetResponse\<close>. \<open>date\<close> is the formatted clock reading of \<^verbatim>\<open>prepare\<close> and \<open>started\<close> the
  clock reading of \<^verbatim>\<open>attempts.Start()\<close>.
\<close>

definition GetResponse :: "lib \<Rightarrow> Bucket \<Rightarrow> string \<Rightarrow> string \<Rightarrow> Time \<Rightarrow> round list \<Rightarrow> outcome" where
  "GetResponse lb self p date started rs =
     (let req = \<lparr>method_r = '''', bucket = Bucket_Name self, path = p, signpath = '''',
                 params = Map.empty, headers = Map.empty, baseurl = '''', payload = None,
                 prepared = False\<rparr>;
          pr = prepare lb (Bucket_S3 self) date req
      in case snd pr of
           Some err \<Rightarrow> Returned None (Some err)
         | None \<Rightarrow> GetResponse_loop lb (Bucket_S3 self) (fst pr) (Start attempts started) rs)"

subsection \<open>Concrete rounds\<close>

definition example_bucket :: Bucket where
  "example_bucket = \<lparr>Bucket_S3 = example_s3, Bucket_Name = ''example''\<rparr>"

definition internal_error :: Response where
  "internal_error =
     \<lparr>StatusCode = 500, Status = ''500 Internal Server Error'', Body = ''InternalError''\<rparr>"

definition found :: Response where
  "found = \<lparr>StatusCode = 200, Status = ''200 OK'', Body = ''data''\<rparr>"

definition failing_round :: "Time \<Rightarrow> round" where
  "failing_round t =
     \<lparr>Next_now = t, Next_woken = t + 200000000, Do_answer = (\<lambda>hreq. Inr internal_error),
      HasNext_now = t + 300000000\<rparr>"

definition succeeding_round :: "Time \<Rightarrow> round" where
  "succeeding_round t =
     \<lparr>Next_now = t, Next_woken = t + 200000000, Do_answer = (\<lambda>hreq. Inr found),
      HasNext_now = t + 300000000\<rparr>"

chapter \<open>Properties\<close>

section \<open>Properties of the attempt strategy\<close>

subsection \<open>Facts about single calls\<close>

lemma nextSleep_nonneg: "0 \<le> nextSleep a now"
  by (simp add: nextSleep_def Let_def)

lemma Next_forced: "force a \<Longrightarrow> fst (Next a now woken)"
  by (simp add: Next_def Let_def)

lemma Next_below_Min: "count a < Min_tries (strategy a) \<Longrightarrow> fst (Next a now woken)"
  by (simp add: Next_def Let_def)

lemma Next_exhausted:
  "\<not> force a \<Longrightarrow> Min_tries (strategy a) \<le> count a \<Longrightarrow> end_t a \<le> now \<Longrightarrow>
   \<not> fst (Next a now woken)"
  using nextSleep_nonneg [of a now] by (simp add: Next_def Let_def)

lemma Next_true_state:
  "fst (Next a now woken) \<Longrightarrow>
   count (snd (Next a now woken)) = count a + 1 \<and> \<not> force (snd (Next a now woken))
   \<and> strategy (snd (Next a now woken)) = strategy a \<and> end_t (snd (Next a now woken)) = end_t a"
  by (simp add: Next_def Let_def split: if_splits)

lemma Next_false_state: "\<not> fst (Next a now woken) \<Longrightarrow> snd (Next a now woken) = a \<and> \<not> force a"
  by (simp add: Next_def Let_def split: if_splits)

subsection \<open>Facts about consecutive calls\<close>

lemma Next_keeps_unforced: "\<not> force a \<Longrightarrow> \<not> force (snd (Next a now woken))"
  by (simp add: Next_def Let_def)

lemma Next_unforces: "\<not> force (snd (Next a now woken))"
  by (simp add: Next_def Let_def)

lemma Next_frame:
  "strategy (snd (Next a now woken)) = strategy a \<and> end_t (snd (Next a now woken)) = end_t a"
  by (simp add: Next_def Let_def)

lemma Next_calls_frame:
  "strategy (snd (Next_calls a ts)) = strategy a \<and> end_t (snd (Next_calls a ts)) = end_t a"
  by (induction ts arbitrary: a) (simp_all add: Let_def Next_frame)

lemma Next_calls_keep_unforced: "\<not> force a \<Longrightarrow> \<not> force (snd (Next_calls a ts))"
  by (induction ts arbitrary: a) (simp_all add: Let_def Next_keeps_unforced)

lemma Next_calls_unforce: "ts \<noteq> [] \<Longrightarrow> \<not> force (snd (Next_calls a ts))"
  by (cases ts) (simp_all add: Let_def Next_calls_keep_unforced Next_unforces)

lemma Next_calls_below_Min:
  "count a + int (length ts) \<le> Min_tries (strategy a) \<Longrightarrow>
   fst (Next_calls a ts) = replicate (length ts) True
   \<and> count (snd (Next_calls a ts)) = count a + int (length ts)"
proof (induction ts arbitrary: a)
  case Nil
  then show ?case by simp
next
  case (Cons t ts)
  let ?r = "Next a (fst t) (snd t)"
  from Cons.prems have below: "count a < Min_tries (strategy a)" by simp
  then have ans: "fst ?r" by (rule Next_below_Min)
  then have st: "count (snd ?r) = count a + 1" "strategy (snd ?r) = strategy a"
    using Next_true_state [of a "fst t" "snd t"] by simp_all
  with Cons.prems have "count (snd ?r) + int (length ts) \<le> Min_tries (strategy (snd ?r))"
    by simp
  from Cons.IH [OF this] ans st show ?case by (simp add: Let_def)
qed

text \<open>
  C3. On a freshly started attempt the first \<^verbatim>\<open>Next\<close> answers true, whatever the strategy and
  the clock. While no more calls have been made than the strategy's minimum, every call
  answers true and is counted, whatever the clock readings are (so also when each attempt
  overran the total budget). Once at least one call has been made, the count has reached the
  minimum and the clock has reached the end of the budget, \<^verbatim>\<open>Next\<close> answers false.
\<close>

theorem Next_first_and_minimum:
  "fst (Next (Start s t0) now woken)
   \<and> (int (length ts) \<le> Min_tries s \<longrightarrow>
        fst (Next_calls (Start s t0) ts) = replicate (length ts) True
        \<and> count (snd (Next_calls (Start s t0) ts)) = int (length ts))
   \<and> (ts \<noteq> [] \<and> Min_tries s \<le> count (snd (Next_calls (Start s t0) ts))
        \<and> t0 + Total s \<le> now \<longrightarrow>
        \<not> fst (Next (snd (Next_calls (Start s t0) ts)) now woken))"
proof (intro conjI impI)
  show "fst (Next (Start s t0) now woken)"
    by (rule Next_forced) (simp add: Start_def)
next
  assume "int (length ts) \<le> Min_tries s"
  then have "count (Start s t0) + int (length ts) \<le> Min_tries (strategy (Start s t0))"
    by (simp add: Start_def)
  from Next_calls_below_Min [OF this]
  show "fst (Next_calls (Start s t0) ts) = replicate (length ts) True"
    and "count (snd (Next_calls (Start s t0) ts)) = int (length ts)"
    by (simp_all add: Start_def)
next
  let ?a = "snd (Next_calls (Start s t0) ts)"
  assume h: "ts \<noteq> [] \<and> Min_tries s \<le> count ?a \<and> t0 + Total s \<le> now"
  have fr: "strategy ?a = s" "end_t ?a = t0 + Total s"
    using Next_calls_frame [of "Start s t0" ts] by (simp_all add: Start_def)
  from h have "\<not> force ?a" by (simp add: Next_calls_unforce)
  moreover from h fr have "Min_tries (strategy ?a) \<le> count ?a" by simp
  moreover from h fr have "end_t ?a \<le> now" by simp
  ultimately show "\<not> fst (Next ?a now woken)" by (rule Next_exhausted)
qed

theorem Next_first_and_minimum_witness:
  "fst (Next (Start attempts 0) 30000000000 30200000000)
   \<and> fst (Next_calls (Start attempts 0)
        [(0, 0), (6000000000, 6200000000), (12000000000, 12200000000),
         (18000000000, 18200000000), (24000000000, 24200000000)]) = [True, True, True, True, True]
   \<and> \<not> fst (Next (snd (Next_calls (Start attempts 0)
        [(0, 0), (6000000000, 6200000000), (12000000000, 12200000000),
         (18000000000, 18200000000), (24000000000, 24200000000)])) 30000000000 30200000000)"
proof -
  let ?ts = "[(0, 0), (6000000000, 6200000000), (12000000000, 12200000000),
             (18000000000, 18200000000), (24000000000, 24200000000)] :: (Time \<times> Time) list"
  have len: "int (length ?ts) \<le> Min_tries attempts"
    by (simp add: attempts_def)
  have cnt: "count (snd (Next_calls (Start attempts 0) ?ts)) = 5"
    by code_simp
  have late: "0 + Total attempts \<le> 30000000000"
    by (simp add: attempts_def)
  from cnt have enough: "Min_tries attempts \<le> count (snd (Next_calls (Start attempts 0) ?ts))"
    by (simp add: attempts_def)
  have ne: "?ts \<noteq> []"
    by simp
  have rep: "replicate (length ?ts) True = [True, True, True, True, True]"
    by simp
  note main = Next_first_and_minimum [of attempts 0 30000000000 30200000000 ?ts]
  from main have c1: "fst (Next (Start attempts 0) 30000000000 30200000000)"
    by (rule conjunct1)
  from main len have "fst (Next_calls (Start attempts 0) ?ts) = replicate (length ?ts) True"
    by blast
  then have c2: "fst (Next_calls (Start attempts 0) ?ts) = [True, True, True, True, True]"
    using rep by (rule trans)
  from main ne enough late
  have c3: "\<not> fst (Next (snd (Next_calls (Start attempts 0) ?ts)) 30000000000 30200000000)"
    by blast
  from c1 c2 c3 show ?thesis by (intro conjI)
qed

text \<open>
  C4. When \<^verbatim>\<open>HasNext\<close> answers true, the call of \<^verbatim>\<open>Next\<close> that follows it on the same attempt
  answers true as well, whatever the clock reads by then.
\<close>

theorem HasNext_binds_Next:
  "fst (HasNext a now) \<Longrightarrow> fst (Next (snd (HasNext a now)) later woken)"
  by (auto simp add: HasNext_def Next_def Let_def split: if_splits)

theorem HasNext_binds_Next_witness:
  "fst (HasNext \<lparr>strategy = attempts, last_t = 4000000000, end_t = 5000000000,
                 force = False, count = 7\<rparr> 4500000000)
   \<and> fst (Next (snd (HasNext \<lparr>strategy = attempts, last_t = 4000000000, end_t = 5000000000,
                 force = False, count = 7\<rparr> 4500000000)) 90000000000 90000000000)"
  using HasNext_binds_Next [of "\<lparr>strategy = attempts, last_t = 4000000000,
      end_t = 5000000000, force = False, count = 7\<rparr>" 4500000000 90000000000 90000000000]
  by (simp add: HasNext_def nextSleep_def attempts_def)

section \<open>Properties of the default retry policy\<close>

text \<open>
  C9. \<^verbatim>\<open>awsRetry\<close> answers true exactly when the error is a temporary network error or there
  is a response whose status code is at least 500 and below 600. So it answers false for a
  response with a 2xx status and no error, and for an error that is not a temporary network
  error and comes without a response.
\<close>

theorem awsRetry_exactly:
  "awsRetry req res err =
     ((\<exists>e. err = Some e \<and> net_Error_Temporary e = Some True)
      \<or> (\<exists>r. res = Some r \<and> 500 \<le> StatusCode r \<and> StatusCode r < 600))
   \<and> (200 \<le> StatusCode ok \<and> StatusCode ok < 300 \<longrightarrow> \<not> awsRetry req (Some ok) None)
   \<and> (net_Error_Temporary bad \<noteq> Some True \<longrightarrow> \<not> awsRetry req None (Some bad))"
  by (auto simp add: awsRetry_def split: option.splits)

theorem awsRetry_exactly_witness:
  "awsRetry \<lparr>URL = \<lparr>Scheme = ''https'', Host = ''s3.amazonaws.com'', Path = ''/b/k'', RawQuery = ''''\<rparr>,
             Method = ''GET'', Header = Map.empty, ContentLength = 0, Body_req = None\<rparr>
            (Some \<lparr>StatusCode = 503, Status = ''503 Service Unavailable'', Body = ''''\<rparr>) None
   \<and> \<not> awsRetry \<lparr>URL = \<lparr>Scheme = ''https'', Host = ''s3.amazonaws.com'', Path = ''/b/k'', RawQuery = ''''\<rparr>,
             Method = ''GET'', Header = Map.empty, ContentLength = 0, Body_req = None\<rparr>
            (Some \<lparr>StatusCode = 200, Status = ''200 OK'', Body = ''''\<rparr>) None
   \<and> \<not> awsRetry \<lparr>URL = \<lparr>Scheme = ''https'', Host = ''s3.amazonaws.com'', Path = ''/b/k'', RawQuery = ''''\<rparr>,
             Method = ''GET'', Header = Map.empty, ContentLength = 0, Body_req = None\<rparr>
            None (Some (OpError ''dial'' False))"
  using awsRetry_exactly [of
      "\<lparr>URL = \<lparr>Scheme = ''https'', Host = ''s3.amazonaws.com'', Path = ''/b/k'', RawQuery = ''''\<rparr>,
        Method = ''GET'', Header = Map.empty, ContentLength = 0, Body_req = None\<rparr>"
      "Some \<lparr>StatusCode = 503, Status = ''503 Service Unavailable'', Body = ''''\<rparr>" None
      "\<lparr>StatusCode = 200, Status = ''200 OK'', Body = ''''\<rparr>" "OpError ''dial'' False"]
  by simp

section \<open>Properties of the retry classifier\<close>

text \<open>
  C7. For a decoded \<^verbatim>\<open>*Error\<close>, \<^verbatim>\<open>shouldRetry\<close> answers true exactly when the code is one of
  InternalError, NoSuchUpload and NoSuchBucket: NoSuchBucket is retried, AccessDenied is not,
  and a nil error is not.
\<close>

theorem shouldRetry_codes:
  "shouldRetry (Some (S3Error e)) = (Code e \<in> {''InternalError'', ''NoSuchUpload'', ''NoSuchBucket''})
   \<and> shouldRetry (Some (S3Error (e\<lparr>Code := ''NoSuchBucket''\<rparr>)))
   \<and> \<not> shouldRetry (Some (S3Error (e\<lparr>Code := ''AccessDenied''\<rparr>)))
   \<and> \<not> shouldRetry None"
  by simp

section \<open>Properties of the resilient transport\<close>

subsection \<open>The copy that executes the underlying transport\<close>

lemma tries_loop_always_retry:
  shows "\<forall>q r e. ShouldRetry self q r e \<Longrightarrow> i \<le> MaxTries self \<Longrightarrow>
     executions (snd (tries_loop self request i prev w))
       = executions w + nat (MaxTries self - i)
     \<and> fst (tries_loop self request i prev w)
       = (if i = MaxTries self then prev
          else transport self (executions w + nat (MaxTries self - i) - 1) request)"
proof (induction self request i prev w rule: tries_loop.induct)
  case (1 self request i prev w)
  from "1.prems" have always: "\<And>q r e. ShouldRetry self q r e" by simp
  show ?case
  proof (cases "i < MaxTries self")
    case False
    then have "tries_loop self request i prev w = (prev, w)"
      by (subst tries_loop.simps) simp
    with False "1.prems" show ?thesis
      by simp
  next
    case True
    define r where "r = transport self (executions w) request"
    define w1 where "w1 = w\<lparr>executions := executions w + 1\<rparr>"
    define w2 where "w2 = (if fst r \<noteq> None then w1\<lparr>closed := closed w1 + 1\<rparr> else w1)"
    define w3 where "w3 = (if Wait self \<noteq> None then w2\<lparr>waits := waits w2 @ [i]\<rparr> else w2)"
    have ex: "executions w3 = executions w + 1"
      by (simp add: w3_def w2_def w1_def)
    have unfold: "tries_loop self request i prev w = tries_loop self request (i + 1) r w3"
      using True
      by (simp add: tries_loop.simps [of self request i prev w] Let_def always
            r_def w1_def w2_def w3_def)
    from True have le: "i + 1 \<le> MaxTries self" by simp
    have IH: "executions (snd (tries_loop self request (i + 1) r w3))
          = executions w3 + nat (MaxTries self - (i + 1))
        \<and> fst (tries_loop self request (i + 1) r w3)
          = (if i + 1 = MaxTries self then r
             else transport self (executions w3 + nat (MaxTries self - (i + 1)) - 1) request)"
      using le by (intro "1.IH" [OF True r_def w1_def _ w2_def w3_def]) (simp_all add: always)
    have n: "nat (MaxTries self - i) = Suc (nat (MaxTries self - (i + 1)))"
      using True by simp
    show ?thesis
      using IH True unfolding unfold ex n
      by (auto simp add: r_def)
  qed
qed

lemma tries_always_retry:
  assumes "\<And>q r e. ShouldRetry self q r e" and "0 \<le> MaxTries self"
  shows "executions (snd (tries self request w)) = executions w + nat (MaxTries self)
     \<and> fst (tries self request w)
       = (if MaxTries self = 0 then (None, None)
          else transport self (executions w + nat (MaxTries self) - 1) request)"
  using tries_loop_always_retry [of self 0 request "(None, None)" w] assms
  by (simp add: tries_def)

text \<open>Three executions, three closed bodies, three waits, and the third answer returned.\<close>

lemma tries_always_retrying:
  "tries always_retrying get_example \<lparr>executions = 0, closed = 0, waits = []\<rparr> =
     ((Some \<lparr>StatusCode = 502, Status = '''', Body = ''''\<rparr>, None),
      \<lparr>executions = 3, closed = 3, waits = [0, 1, 2]\<rparr>)"
  by code_simp

subsection \<open>The copy that calls itself\<close>

lemma tries_self_loop_returns:
  "tries_self_loop self req try prev w = Some y \<Longrightarrow> MaxTries self \<le> 0 \<or> MaxTries self \<le> try"
proof (erule tries_self_loop.raw_induct [rotated 1,
      where P = "\<lambda>self req try prev w y. MaxTries self \<le> 0 \<or> MaxTries self \<le> try"])
  fix f :: "ResilientTransport \<Rightarrow> http_Request \<Rightarrow> int \<Rightarrow> Response option \<times> error option
      \<Rightarrow> effects \<Rightarrow> ((Response option \<times> error option) \<times> effects) option"
  fix self req i prev w y k
  assume IH: "\<And>self req i prev w y. f self req i prev w = Some y
      \<Longrightarrow> MaxTries self \<le> 0 \<or> MaxTries self \<le> i"
  assume eq: "(if i < MaxTries self then Option.bind (f self req 0 (None, None) w) k
      else Some (prev, w)) = Some y"
  show "MaxTries self \<le> 0 \<or> MaxTries self \<le> i"
  proof (cases "i < MaxTries self")
    case True
    with eq obtain rw where "f self req 0 (None, None) w = Some rw"
      by (auto simp add: bind_eq_Some_conv)
    from IH [OF this] show ?thesis by simp
  next
    case False
    then show ?thesis by simp
  qed
qed

lemma tries_self_diverges: "0 < MaxTries self \<Longrightarrow> tries_self self req w = None"
proof (rule ccontr)
  assume pos: "0 < MaxTries self" and "tries_self self req w \<noteq> None"
  then obtain y where "tries_self_loop self req 0 (None, None) w = Some y"
    by (auto simp add: tries_self_def)
  from tries_self_loop_returns [OF this] pos show False by simp
qed

text \<open>
  C5. With \<^verbatim>\<open>MaxTries\<close> 3 the copy in src/aws/resilient_transport.go never returns, for any
  retry predicate, request and underlying transport: before anything else, every call calls
  itself again. It executes the underlying transport not once.
\<close>

theorem tries_self_never_returns:
  "tries_self (self\<lparr>MaxTries := 3\<rparr>) req w = None
   \<and> RoundTrip_self (self\<lparr>MaxTries := 3\<rparr>) req w = None"
  by (simp add: RoundTrip_self_def tries_self_diverges)

section \<open>Properties of \<^verbatim>\<open>prepare\<close>\<close>

subsection \<open>Facts about the string functions\<close>

lemma strings_IndexAny_found: "(0 \<le> strings_IndexAny s chars) = (set s \<inter> set chars \<noteq> {})"
  by (induction s) (auto simp add: Let_def)

lemma Replace_all_example:
  "strings_Replace_all ''https://${bucket}.s3.amazonaws.com'' ''${bucket}'' ''example''
     = ''https://example.s3.amazonaws.com''"
  by code_simp

subsection \<open>Facts about \<^verbatim>\<open>prepare\<close>\<close>

lemma prepare_first_path_style:
  "bucket req \<noteq> '''' \<Longrightarrow> S3BucketEndpoint (Region self) = '''' \<Longrightarrow>
   prepare_first self req =
     (req\<lparr>prepared := True,
          method_r := (if method_r req = '''' then ''GET'' else method_r req),
          path := ''/'' @ bucket req @ slashed (path req),
          signpath := ''/'' @ bucket req @ slashed (path req),
          baseurl := S3Endpoint (Region self)\<rparr>, None)"
  by (simp add: prepare_first_def Let_def)

lemma prepare_first_hosted:
  "bucket req \<noteq> '''' \<Longrightarrow> S3BucketEndpoint (Region self) \<noteq> '''' \<Longrightarrow>
   set (bucket req) \<inter> set ''/:@'' = {} \<Longrightarrow>
   prepare_first self req =
     (req\<lparr>prepared := True,
          method_r := (if method_r req = '''' then ''GET'' else method_r req),
          path := slashed (path req),
          signpath := ''/'' @ bucket req @ slashed (path req),
          baseurl := strings_Replace_all (S3BucketEndpoint (Region self)) ''${bucket}'' (bucket req)\<rparr>,
      None)"
  using strings_IndexAny_found [of "bucket req" "''/:@''"]
  by (simp add: prepare_first_def Let_def)

lemma prepare_first_bad_bucket:
  "S3BucketEndpoint (Region self) \<noteq> '''' \<Longrightarrow> set (bucket req) \<inter> set ''/:@'' \<noteq> {} \<Longrightarrow>
   prepare_first self req =
     (req\<lparr>prepared := True,
          method_r := (if method_r req = '''' then ''GET'' else method_r req),
          path := slashed (path req),
          signpath := slashed (path req),
          baseurl := S3BucketEndpoint (Region self)\<rparr>,
      Some (BadS3Bucket (bucket req)))"
  using strings_IndexAny_found [of "bucket req" "''/:@''"]
  by (auto simp add: prepare_first_def Let_def)

lemma prepare_first_no_bucket:
  "bucket req = '''' \<Longrightarrow>
   prepare_first self req =
     (req\<lparr>prepared := True,
          method_r := (if method_r req = '''' then ''GET'' else method_r req),
          path := slashed (path req),
          signpath := slashed (path req)\<rparr>, None)"
  by (simp add: prepare_first_def Let_def)

lemma prepare_first_prepared: "prepared (fst (prepare_first self req))"
  by (simp add: prepare_first_def Let_def)

text \<open>What \<^verbatim>\<open>prepare\<close> does after the guarded block: it only writes the two maps.\<close>

lemma prepare_fields:
  "prepare lb self date req = (req', e) \<Longrightarrow>
   method_r req' = method_r (fst (if \<not> prepared req then prepare_first self req else (req, None)))
   \<and> bucket req' = bucket (fst (if \<not> prepared req then prepare_first self req else (req, None)))
   \<and> path req' = path (fst (if \<not> prepared req then prepare_first self req else (req, None)))
   \<and> signpath req' = signpath (fst (if \<not> prepared req then prepare_first self req else (req, None)))
   \<and> baseurl req' = baseurl (fst (if \<not> prepared req then prepare_first self req else (req, None)))
   \<and> payload req' = payload (fst (if \<not> prepared req then prepare_first self req else (req, None)))
   \<and> prepared req' = prepared (fst (if \<not> prepared req then prepare_first self req else (req, None)))"
  by (auto simp add: prepare_def Let_def split: option.splits sum.splits if_splits)

lemma prepare_ok_first_ok:
  "prepare lb self date req = (req', None) \<Longrightarrow> \<not> prepared req \<Longrightarrow>
   snd (prepare_first self req) = None"
  by (auto simp add: prepare_def Let_def split: option.splits sum.splits if_splits)

lemma prepare_ok_parses:
  "prepare lb self date req = (req', None) \<Longrightarrow> \<exists>u. url_Parse lb (baseurl req') = Inr u"
  by (auto simp add: prepare_def Let_def split: option.splits sum.splits if_splits)

lemma prepare_ok_prepared:
  "prepare lb self date req = (req', None) \<Longrightarrow> prepared req'"
  using prepare_first_prepared [of self req]
  by (auto simp add: prepare_def Let_def split: option.splits sum.splits if_splits)

lemma prepare_again:
  "prepared req \<Longrightarrow> url_Parse lb (baseurl req) = Inr u \<Longrightarrow>
   prepare lb self date req =
     (req\<lparr>params := fst (sign lb (Auth self) (method_r req) (signpath req) (params req)
                          ((headers req)(''Host'' \<mapsto> [Host u], ''Date'' \<mapsto> [date]))),
          headers := snd (sign lb (Auth self) (method_r req) (signpath req) (params req)
                          ((headers req)(''Host'' \<mapsto> [Host u], ''Date'' \<mapsto> [date])))\<rparr>, None)"
  by (simp add: prepare_def Let_def)

lemma prepare_first_maps:
  "params (fst (prepare_first self req)) = params req
   \<and> headers (fst (prepare_first self req)) = headers req"
  by (simp add: prepare_first_def Let_def)

text \<open>
  Every call of \<^verbatim>\<open>prepare\<close> that returns no error, the resolving one included, has parsed the
  base URL it leaves, and leaves the two maps as \<^verbatim>\<open>sign\<close> returns them for the maps of the
  descriptor it was given, with \<^verbatim>\<open>Host\<close> and \<^verbatim>\<open>Date\<close> written into the headers first.
\<close>

lemma prepare_ok_signs:
  assumes ok: "prepare lb self date req = (req', None)"
  shows "\<exists>u. url_Parse lb (baseurl req') = Inr u
     \<and> params req' = fst (sign lb (Auth self) (method_r req') (signpath req') (params req)
                        ((headers req)(''Host'' \<mapsto> [Host u], ''Date'' \<mapsto> [date])))
     \<and> headers req' = snd (sign lb (Auth self) (method_r req') (signpath req') (params req)
                        ((headers req)(''Host'' \<mapsto> [Host u], ''Date'' \<mapsto> [date])))"
proof -
  define r where "r = fst (if \<not> prepared req then prepare_first self req else (req, None))"
  have maps: "params r = params req" "headers r = headers req"
    using prepare_first_maps [of self req] by (simp_all add: r_def)
  from prepare_fields [OF ok]
  have same: "method_r req' = method_r r" "signpath req' = signpath r" "baseurl req' = baseurl r"
    by (simp_all add: r_def)
  from prepare_ok_parses [OF ok] obtain u where u: "url_Parse lb (baseurl req') = Inr u" ..
  with same have ur: "url_Parse lb (baseurl r) = Inr u" by simp
  from ok ur
  have "req' = r\<lparr>params := fst (sign lb (Auth self) (method_r r) (signpath r) (params r)
                      ((headers r)(''Host'' \<mapsto> [Host u], ''Date'' \<mapsto> [date]))),
                 headers := snd (sign lb (Auth self) (method_r r) (signpath r) (params r)
                      ((headers r)(''Host'' \<mapsto> [Host u], ''Date'' \<mapsto> [date])))\<rparr>"
    by (auto simp add: prepare_def Let_def r_def split: option.splits if_splits)
  then have "params req' = fst (sign lb (Auth self) (method_r r) (signpath r) (params r)
                      ((headers r)(''Host'' \<mapsto> [Host u], ''Date'' \<mapsto> [date])))"
    and "headers req' = snd (sign lb (Auth self) (method_r r) (signpath r) (params r)
                      ((headers r)(''Host'' \<mapsto> [Host u], ''Date'' \<mapsto> [date])))"
    by simp_all
  with u show ?thesis
    unfolding maps same [symmetric] by blast
qed

lemma prepare_example_path_style:
  "prepare example_lib example_s3 d (get_request ''example'' ''key'') =
     (\<lparr>method_r = ''GET'', bucket = ''example'', path = ''/example/key'',
       signpath = ''/example/key'', params = Map.empty,
       headers = [''Host'' \<mapsto> [''s3.amazonaws.com''], ''Date'' \<mapsto> [d],
                  ''Authorization'' \<mapsto> [''AWS AKIDEXAMPLE:/example/key'' @ d]],
       baseurl = ''https://s3.amazonaws.com'', payload = None, prepared = True\<rparr>, None)"
  by (simp add: prepare_def prepare_first_def example_lib_def example_s3_def example_auth_def
        USEast_def get_request_def slashed_def strings_HasPrefix_def Let_def)

lemma prepare_example_hosted:
  "prepare example_lib example_s3_hosted d (get_request ''example'' ''key'') =
     (\<lparr>method_r = ''GET'', bucket = ''example'', path = ''/key'',
       signpath = ''/example/key'', params = Map.empty,
       headers = [''Host'' \<mapsto> [''example.s3.amazonaws.com''], ''Date'' \<mapsto> [d],
                  ''Authorization'' \<mapsto> [''AWS AKIDEXAMPLE:/example/key'' @ d]],
       baseurl = ''https://example.s3.amazonaws.com'', payload = None, prepared = True\<rparr>, None)"
  by (simp add: prepare_def prepare_first_def example_lib_def example_s3_hosted_def
        example_auth_def USEast_hosted_def USEast_def get_request_def slashed_def
        strings_HasPrefix_def Let_def Replace_all_example)

text \<open>
  C1. A descriptor that has not been prepared and names a bucket, when \<^verbatim>\<open>prepare\<close> returns no
  error, has the signable path \<^verbatim>\<open>"/" + bucket + path\<close>, the path with a slash in front if it
  had none. The value does not depend on the region: it is the same with an empty bucket
  endpoint (path-style: the resource path is that same string and the base URL is the S3
  endpoint) and with a bucket endpoint (virtual-hosted: the resource path stays the slashed
  path and the base URL is the template with the bucket filled in).
\<close>

theorem prepare_signpath:
  "\<not> prepared req \<Longrightarrow> bucket req \<noteq> '''' \<Longrightarrow> prepare lb self date req = (req', None) \<Longrightarrow>
   signpath req' = ''/'' @ bucket req @ slashed (path req)
   \<and> (S3BucketEndpoint (Region self) = '''' \<longrightarrow>
        path req' = ''/'' @ bucket req @ slashed (path req)
        \<and> baseurl req' = S3Endpoint (Region self))
   \<and> (S3BucketEndpoint (Region self) \<noteq> '''' \<longrightarrow>
        path req' = slashed (path req)
        \<and> baseurl req' =
            strings_Replace_all (S3BucketEndpoint (Region self)) ''${bucket}'' (bucket req))"
proof -
  assume fresh: "\<not> prepared req" and named: "bucket req \<noteq> ''''"
    and ok: "prepare lb self date req = (req', None)"
  from ok fresh have first_ok: "snd (prepare_first self req) = None"
    by (rule prepare_ok_first_ok)
  note fields = prepare_fields [OF ok]
  show ?thesis
  proof (cases "S3BucketEndpoint (Region self) = ''''")
    case True
    with fields fresh prepare_first_path_style [OF named True] show ?thesis
      by simp
  next
    case False
    have clean: "set (bucket req) \<inter> set ''/:@'' = {}"
    proof (rule ccontr)
      assume "set (bucket req) \<inter> set ''/:@'' \<noteq> {}"
      from prepare_first_bad_bucket [OF False this] first_ok show False
        by simp
    qed
    with fields fresh prepare_first_hosted [OF named False clean] False show ?thesis
      by simp
  qed
qed

theorem prepare_signpath_witness:
  "snd (prepare example_lib example_s3 ''Sat, 31 Oct 2026 06:00:00 UTC''
          (get_request ''example'' ''key'')) = None
   \<and> signpath (fst (prepare example_lib example_s3 ''Sat, 31 Oct 2026 06:00:00 UTC''
          (get_request ''example'' ''key''))) = ''/example/key''
   \<and> path (fst (prepare example_lib example_s3 ''Sat, 31 Oct 2026 06:00:00 UTC''
          (get_request ''example'' ''key''))) = ''/example/key''
   \<and> snd (prepare example_lib example_s3_hosted ''Sat, 31 Oct 2026 06:00:00 UTC''
          (get_request ''example'' ''key'')) = None
   \<and> signpath (fst (prepare example_lib example_s3_hosted ''Sat, 31 Oct 2026 06:00:00 UTC''
          (get_request ''example'' ''key''))) = ''/example/key''
   \<and> path (fst (prepare example_lib example_s3_hosted ''Sat, 31 Oct 2026 06:00:00 UTC''
          (get_request ''example'' ''key''))) = ''/key''"
proof -
  let ?d = "''Sat, 31 Oct 2026 06:00:00 UTC''"
  let ?req = "get_request ''example'' ''key''"
  let ?p = "prepare example_lib example_s3 ?d ?req"
  let ?h = "prepare example_lib example_s3_hosted ?d ?req"
  have fresh: "\<not> prepared ?req" and named: "bucket ?req \<noteq> ''''"
    and sl: "slashed (path ?req) = ''/key''" and b: "bucket ?req = ''example''"
    by (simp_all add: get_request_def slashed_def strings_HasPrefix_def)
  have p_ok: "?p = (fst ?p, None)" and h_ok: "?h = (fst ?h, None)"
    by (simp_all add: prepare_example_path_style prepare_example_hosted)
  have modes: "S3BucketEndpoint (Region example_s3) = ''''"
      "S3BucketEndpoint (Region example_s3_hosted) \<noteq> ''''"
    by (simp_all add: example_s3_def example_s3_hosted_def USEast_hosted_def USEast_def)
  from prepare_signpath [OF fresh named p_ok] modes(1)
  have "signpath (fst ?p) = ''/'' @ bucket ?req @ slashed (path ?req)"
      "path (fst ?p) = ''/'' @ bucket ?req @ slashed (path ?req)"
    by blast+
  then have c1: "signpath (fst ?p) = ''/example/key''" "path (fst ?p) = ''/example/key''"
    unfolding sl b by simp_all
  from prepare_signpath [OF fresh named h_ok] modes(2)
  have "signpath (fst ?h) = ''/'' @ bucket ?req @ slashed (path ?req)"
      "path (fst ?h) = slashed (path ?req)"
    by blast+
  then have c2: "signpath (fst ?h) = ''/example/key''" "path (fst ?h) = ''/key''"
    unfolding sl b by simp_all
  from p_ok have e1: "snd ?p = None" by (metis snd_conv)
  from h_ok have e2: "snd ?h = None" by (metis snd_conv)
  from e1 c1 e2 c2 show ?thesis by (intro conjI)
qed

lemma prepare_example_bad_bucket:
  "prepare example_lib example_s3_hosted d (get_request ''a/b'' ''key'') =
     (\<lparr>method_r = ''GET'', bucket = ''a/b'', path = ''/key'', signpath = ''/key'',
       params = Map.empty, headers = Map.empty,
       baseurl = ''https://${bucket}.s3.amazonaws.com'', payload = None, prepared = True\<rparr>,
      Some (BadS3Bucket ''a/b''))"
  by (simp add: prepare_def prepare_first_def example_s3_hosted_def
        USEast_hosted_def USEast_def get_request_def slashed_def
        strings_HasPrefix_def Let_def)

text \<open>
  C2, as the claim states it, fails. With the bucket \<^verbatim>\<open>a/b\<close> and a bucket endpoint,
  \<^verbatim>\<open>prepare\<close> returns the bad-bucket error, and the descriptor that \<^verbatim>\<open>GetResponse\<close> built is
  not what it was: it is marked prepared, its method, path and signable path are set and its
  base URL is the template.
\<close>

theorem prepare_bad_bucket_changes_request:
  "snd (prepare example_lib example_s3_hosted ''Sat, 31 Oct 2026 06:00:00 UTC''
          (get_request ''a/b'' ''key'')) = Some (BadS3Bucket ''a/b'')
   \<and> fst (prepare example_lib example_s3_hosted ''Sat, 31 Oct 2026 06:00:00 UTC''
          (get_request ''a/b'' ''key'')) \<noteq> get_request ''a/b'' ''key''
   \<and> prepared (fst (prepare example_lib example_s3_hosted ''Sat, 31 Oct 2026 06:00:00 UTC''
          (get_request ''a/b'' ''key'')))
   \<and> \<not> prepared (get_request ''a/b'' ''key'')"
  by (simp add: prepare_example_bad_bucket) (simp add: get_request_def)

text \<open>
  C2, amended. For a descriptor that has not been prepared and whose bucket name contains
  \<^verbatim>\<open>/\<close>, \<^verbatim>\<open>:\<close> or \<^verbatim>\<open>@\<close>, \<^verbatim>\<open>prepare\<close> under a bucket endpoint returns the bad-bucket error
  before it parses the URL, sets \<^verbatim>\<open>Host\<close> and \<^verbatim>\<open>Date\<close> or signs. Bucket, parameters, headers
  and payload are as they were. The descriptor is marked prepared, an empty method has become
  GET, the path has its slash, the signable path is that path without the bucket, and the
  base URL is the endpoint template with its placeholder.
\<close>

theorem prepare_bad_bucket:
  "\<not> prepared req \<Longrightarrow> S3BucketEndpoint (Region self) \<noteq> '''' \<Longrightarrow>
   CHR ''/'' \<in> set (bucket req) \<or> CHR '':'' \<in> set (bucket req) \<or> CHR ''@'' \<in> set (bucket req) \<Longrightarrow>
   prepare lb self date req =
     (req\<lparr>prepared := True,
          method_r := (if method_r req = '''' then ''GET'' else method_r req),
          path := slashed (path req),
          signpath := slashed (path req),
          baseurl := S3BucketEndpoint (Region self)\<rparr>,
      Some (BadS3Bucket (bucket req)))"
proof -
  assume fresh: "\<not> prepared req" and hosted: "S3BucketEndpoint (Region self) \<noteq> ''''"
    and bad: "CHR ''/'' \<in> set (bucket req) \<or> CHR '':'' \<in> set (bucket req)
      \<or> CHR ''@'' \<in> set (bucket req)"
  from bad have "set (bucket req) \<inter> set ''/:@'' \<noteq> {}"
    by auto
  from prepare_first_bad_bucket [OF hosted this] fresh show ?thesis
    by (simp add: prepare_def Let_def)
qed

theorem prepare_bad_bucket_witness:
  "\<not> prepared (get_request ''a/b'' ''key'')
   \<and> S3BucketEndpoint (Region example_s3_hosted) \<noteq> ''''
   \<and> CHR ''/'' \<in> set (bucket (get_request ''a/b'' ''key''))
   \<and> prepare example_lib example_s3_hosted ''Sat, 31 Oct 2026 06:00:00 UTC''
        (get_request ''a/b'' ''key'') =
       ((get_request ''a/b'' ''key'')\<lparr>prepared := True, method_r := ''GET'', path := ''/key'',
           signpath := ''/key'', baseurl := ''https://${bucket}.s3.amazonaws.com''\<rparr>,
        Some (BadS3Bucket ''a/b''))"
proof -
  let ?req = "get_request ''a/b'' ''key''"
  have fresh: "\<not> prepared ?req"
    by (simp add: get_request_def)
  have hosted: "S3BucketEndpoint (Region example_s3_hosted) \<noteq> ''''"
    by (simp add: example_s3_hosted_def USEast_hosted_def USEast_def)
  have bad: "CHR ''/'' \<in> set (bucket ?req)"
    by (simp add: get_request_def)
  then have bad': "CHR ''/'' \<in> set (bucket ?req) \<or> CHR '':'' \<in> set (bucket ?req)
      \<or> CHR ''@'' \<in> set (bucket ?req)"
    by simp
  have vals: "method_r ?req = ''''" "slashed (path ?req) = ''/key''"
      "S3BucketEndpoint (Region example_s3_hosted) = ''https://${bucket}.s3.amazonaws.com''"
      "bucket ?req = ''a/b''"
    by (simp_all add: get_request_def slashed_def strings_HasPrefix_def
          example_s3_hosted_def USEast_hosted_def USEast_def)
  from prepare_bad_bucket [OF fresh hosted bad', of example_lib "''Sat, 31 Oct 2026 06:00:00 UTC''"]
  have "prepare example_lib example_s3_hosted ''Sat, 31 Oct 2026 06:00:00 UTC'' ?req =
       (?req\<lparr>prepared := True, method_r := ''GET'', path := ''/key'',
           signpath := ''/key'', baseurl := ''https://${bucket}.s3.amazonaws.com''\<rparr>,
        Some (BadS3Bucket ''a/b''))"
    unfolding vals by simp
  with fresh hosted bad show ?thesis by (intro conjI)
qed

text \<open>
  C6. After any call of \<^verbatim>\<open>prepare\<close> the descriptor is marked prepared, so a later call skips
  the guarded block: method, bucket, path, signable path, base URL and payload stay as the
  earlier call left them, whatever the later call returns. When the earlier call returned no
  error, the later one parses the same base URL, writes \<^verbatim>\<open>Host\<close>, overwrites \<^verbatim>\<open>Date\<close> with
  its own clock reading and runs \<^verbatim>\<open>sign\<close> again on the parameters the earlier call left and on
  these headers; the two maps end as \<^verbatim>\<open>sign\<close> leaves them. With a signer that does not touch
  the parameters they are unchanged, and with one that does not touch \<^verbatim>\<open>Date\<close> the header holds
  the time of the later call. The same holds of every call that returns no error, the first,
  resolving one included: it has written \<^verbatim>\<open>Host\<close> and \<^verbatim>\<open>Date\<close>, the clock reading of that call,
  into the headers it was given and has run \<^verbatim>\<open>sign\<close> on them, with the method and the signable
  path it leaves; with a signer that does not touch \<^verbatim>\<open>Date\<close> the header holds the time of
  that call.
\<close>

theorem prepare_again_keeps_resolution:
  "prepare lb self d1 req0 = (req1, e1) \<Longrightarrow>
   (method_r (fst (prepare lb self d2 req1)) = method_r req1
    \<and> bucket (fst (prepare lb self d2 req1)) = bucket req1
    \<and> path (fst (prepare lb self d2 req1)) = path req1
    \<and> signpath (fst (prepare lb self d2 req1)) = signpath req1
    \<and> baseurl (fst (prepare lb self d2 req1)) = baseurl req1
    \<and> payload (fst (prepare lb self d2 req1)) = payload req1
    \<and> prepared (fst (prepare lb self d2 req1)))
   \<and> (e1 = None \<longrightarrow>
        (\<exists>u. url_Parse lb (baseurl req1) = Inr u
           \<and> prepare lb self d2 req1 =
               (req1\<lparr>params := fst (sign lb (Auth self) (method_r req1) (signpath req1) (params req1)
                         ((headers req1)(''Host'' \<mapsto> [Host u], ''Date'' \<mapsto> [d2]))),
                     headers := snd (sign lb (Auth self) (method_r req1) (signpath req1) (params req1)
                         ((headers req1)(''Host'' \<mapsto> [Host u], ''Date'' \<mapsto> [d2])))\<rparr>,
                None)))
   \<and> (e1 = None \<and> (\<forall>a m p ps hs. fst (sign lb a m p ps hs) = ps) \<longrightarrow>
        params (fst (prepare lb self d2 req1)) = params req1)
   \<and> (e1 = None \<and> (\<forall>a m p ps hs. snd (sign lb a m p ps hs) ''Date'' = hs ''Date'') \<longrightarrow>
        headers (fst (prepare lb self d2 req1)) ''Date'' = Some [d2])
   \<and> (e1 = None \<longrightarrow>
        (\<exists>u. url_Parse lb (baseurl req1) = Inr u
           \<and> params req1 =
               fst (sign lb (Auth self) (method_r req1) (signpath req1) (params req0)
                      ((headers req0)(''Host'' \<mapsto> [Host u], ''Date'' \<mapsto> [d1])))
           \<and> headers req1 =
               snd (sign lb (Auth self) (method_r req1) (signpath req1) (params req0)
                      ((headers req0)(''Host'' \<mapsto> [Host u], ''Date'' \<mapsto> [d1])))))
   \<and> (e1 = None \<and> (\<forall>a m p ps hs. fst (sign lb a m p ps hs) = ps) \<longrightarrow>
        params req1 = params req0)
   \<and> (e1 = None \<and> (\<forall>a m p ps hs. snd (sign lb a m p ps hs) ''Date'' = hs ''Date'') \<longrightarrow>
        headers req1 ''Date'' = Some [d1])"
proof -
  assume first: "prepare lb self d1 req0 = (req1, e1)"
  have marked: "prepared req1"
    using prepare_fields [OF first] prepare_first_prepared [of self req0]
    by (simp split: if_splits)
  obtain req2 e2 where second: "prepare lb self d2 req1 = (req2, e2)"
    by (cases "prepare lb self d2 req1")
  have frame: "method_r (fst (prepare lb self d2 req1)) = method_r req1
    \<and> bucket (fst (prepare lb self d2 req1)) = bucket req1
    \<and> path (fst (prepare lb self d2 req1)) = path req1
    \<and> signpath (fst (prepare lb self d2 req1)) = signpath req1
    \<and> baseurl (fst (prepare lb self d2 req1)) = baseurl req1
    \<and> payload (fst (prepare lb self d2 req1)) = payload req1
    \<and> prepared (fst (prepare lb self d2 req1))"
    using prepare_fields [OF second] marked by (simp add: second)
  have signed: "\<exists>u. url_Parse lb (baseurl req1) = Inr u
           \<and> prepare lb self d2 req1 =
               (req1\<lparr>params := fst (sign lb (Auth self) (method_r req1) (signpath req1) (params req1)
                         ((headers req1)(''Host'' \<mapsto> [Host u], ''Date'' \<mapsto> [d2]))),
                     headers := snd (sign lb (Auth self) (method_r req1) (signpath req1) (params req1)
                         ((headers req1)(''Host'' \<mapsto> [Host u], ''Date'' \<mapsto> [d2])))\<rparr>,
                None)" if ok: "e1 = None"
  proof -
    from first ok have "prepare lb self d1 req0 = (req1, None)" by simp
    from prepare_ok_parses [OF this] obtain u where u: "url_Parse lb (baseurl req1) = Inr u" ..
    from prepare_again [OF marked u] u show ?thesis by blast
  qed
  have keep_params: "params (fst (prepare lb self d2 req1)) = params req1"
    if "e1 = None" and "\<forall>a m p ps hs. fst (sign lb a m p ps hs) = ps"
    using signed [OF that(1)] that(2) by auto
  have new_date: "headers (fst (prepare lb self d2 req1)) ''Date'' = Some [d2]"
    if "e1 = None" and "\<forall>a m p ps hs. snd (sign lb a m p ps hs) ''Date'' = hs ''Date''"
    using signed [OF that(1)] that(2) by auto
  have this_call: "\<exists>u. url_Parse lb (baseurl req1) = Inr u
           \<and> params req1 =
               fst (sign lb (Auth self) (method_r req1) (signpath req1) (params req0)
                      ((headers req0)(''Host'' \<mapsto> [Host u], ''Date'' \<mapsto> [d1])))
           \<and> headers req1 =
               snd (sign lb (Auth self) (method_r req1) (signpath req1) (params req0)
                      ((headers req0)(''Host'' \<mapsto> [Host u], ''Date'' \<mapsto> [d1])))" if ok: "e1 = None"
  proof -
    from first ok have "prepare lb self d1 req0 = (req1, None)" by simp
    then show ?thesis by (rule prepare_ok_signs)
  qed
  have this_params: "params req1 = params req0"
    if "e1 = None" and "\<forall>a m p ps hs. fst (sign lb a m p ps hs) = ps"
    using this_call [OF that(1)] that(2) by auto
  have this_date: "headers req1 ''Date'' = Some [d1]"
    if "e1 = None" and "\<forall>a m p ps hs. snd (sign lb a m p ps hs) ''Date'' = hs ''Date''"
    using this_call [OF that(1)] that(2) by auto
  show ?thesis
  proof (intro conjI impI)
    show "e1 = None \<Longrightarrow> \<exists>u. url_Parse lb (baseurl req1) = Inr u
           \<and> prepare lb self d2 req1 =
               (req1\<lparr>params := fst (sign lb (Auth self) (method_r req1) (signpath req1) (params req1)
                         ((headers req1)(''Host'' \<mapsto> [Host u], ''Date'' \<mapsto> [d2]))),
                     headers := snd (sign lb (Auth self) (method_r req1) (signpath req1) (params req1)
                         ((headers req1)(''Host'' \<mapsto> [Host u], ''Date'' \<mapsto> [d2])))\<rparr>,
                None)"
      by (rule signed)
    show "e1 = None \<Longrightarrow> \<exists>u. url_Parse lb (baseurl req1) = Inr u
           \<and> params req1 =
               fst (sign lb (Auth self) (method_r req1) (signpath req1) (params req0)
                      ((headers req0)(''Host'' \<mapsto> [Host u], ''Date'' \<mapsto> [d1])))
           \<and> headers req1 =
               snd (sign lb (Auth self) (method_r req1) (signpath req1) (params req0)
                      ((headers req0)(''Host'' \<mapsto> [Host u], ''Date'' \<mapsto> [d1])))"
      by (rule this_call)
  qed (use frame keep_params new_date this_params this_date in simp_all)
qed

theorem prepare_again_keeps_resolution_witness:
  "snd (prepare example_lib example_s3 ''Sat, 31 Oct 2026 06:00:00 UTC''
          (get_request ''example'' ''key'')) = None
   \<and> path (fst (prepare example_lib example_s3 ''Sat, 31 Oct 2026 06:00:07 UTC''
        (fst (prepare example_lib example_s3 ''Sat, 31 Oct 2026 06:00:00 UTC''
          (get_request ''example'' ''key''))))) = ''/example/key''
   \<and> signpath (fst (prepare example_lib example_s3 ''Sat, 31 Oct 2026 06:00:07 UTC''
        (fst (prepare example_lib example_s3 ''Sat, 31 Oct 2026 06:00:00 UTC''
          (get_request ''example'' ''key''))))) = ''/example/key''
   \<and> headers (fst (prepare example_lib example_s3 ''Sat, 31 Oct 2026 06:00:07 UTC''
        (fst (prepare example_lib example_s3 ''Sat, 31 Oct 2026 06:00:00 UTC''
          (get_request ''example'' ''key''))))) ''Date'' = Some [''Sat, 31 Oct 2026 06:00:07 UTC'']
   \<and> headers (fst (prepare example_lib example_s3 ''Sat, 31 Oct 2026 06:00:00 UTC''
          (get_request ''example'' ''key''))) ''Date'' = Some [''Sat, 31 Oct 2026 06:00:00 UTC'']"
proof -
  let ?d1 = "''Sat, 31 Oct 2026 06:00:00 UTC''"
  let ?d2 = "''Sat, 31 Oct 2026 06:00:07 UTC''"
  let ?first = "prepare example_lib example_s3 ?d1 (get_request ''example'' ''key'')"
  have ok: "snd ?first = None"
    by (simp add: prepare_example_path_style)
  then have first: "?first = (fst ?first, None)"
    by (metis prod.collapse)
  have vals: "path (fst ?first) = ''/example/key''" "signpath (fst ?first) = ''/example/key''"
    by (simp_all add: prepare_example_path_style)
  have date_kept: "\<forall>a m p ps hs. snd (sign example_lib a m p ps hs) ''Date'' = hs ''Date''"
    by (simp add: example_lib_def)
  note main = prepare_again_keeps_resolution [OF first, of ?d2]
  from main have "path (fst (prepare example_lib example_s3 ?d2 (fst ?first))) = path (fst ?first)"
    and "signpath (fst (prepare example_lib example_s3 ?d2 (fst ?first))) = signpath (fst ?first)"
    by blast+
  then have c1: "path (fst (prepare example_lib example_s3 ?d2 (fst ?first))) = ''/example/key''"
    and c2: "signpath (fst (prepare example_lib example_s3 ?d2 (fst ?first))) = ''/example/key''"
    unfolding vals by simp_all
  from main date_kept
  have c3: "headers (fst (prepare example_lib example_s3 ?d2 (fst ?first))) ''Date'' = Some [?d2]"
    by blast
  from main date_kept
  have c4: "headers (fst ?first) ''Date'' = Some [?d1]"
    by blast
  from ok c1 c2 c3 c4 show ?thesis by (intro conjI)
qed

section \<open>Properties of \<^verbatim>\<open>run\<close>\<close>



section \<open>Properties of \<^verbatim>\<open>Bucket.GetResponse\<close>\<close>

subsection \<open>The loop is never left through its condition\<close>

lemma run_panic: "run lb Do self req resp_given = Inl p \<Longrightarrow> p = IndexOutOfRange"
  by (auto simp add: run_def run_request_def Let_def
        split: sum.splits option.splits list.splits if_splits)

lemma HasNext_true_bound:
  "fst (HasNext a now) \<Longrightarrow>
   force (snd (HasNext a now))
   \<or> count (snd (HasNext a now)) < Min_tries (strategy (snd (HasNext a now)))"
  by (auto simp add: HasNext_def split: if_splits)

lemma Next_bound: "force a \<or> count a < Min_tries (strategy a) \<Longrightarrow> fst (Next a now woken)"
  using Next_forced Next_below_Min by blast

lemma GetResponse_loop_bound:
  "force a \<or> count a < Min_tries (strategy a) \<Longrightarrow>
   GetResponse_loop lb self req a rs \<noteq> Panicked Unreachable"
proof (induction rs arbitrary: req a)
  case Nil
  show ?case by simp
next
  case (Cons r rs)
  let ?n = "Next a (Next_now r) (Next_woken r)"
  from Cons.prems have entered: "fst ?n" by (rule Next_bound)
  show ?case
  proof (cases "run lb (Do_answer r) self req False")
    case (Inl p)
    from run_panic [OF this] Inl entered show ?thesis
      by (simp add: Let_def)
  next
    case (Inr res)
    obtain req' resp err where res: "res = (req', resp, err)"
      by (cases res)
    show ?thesis
    proof (cases "shouldRetry err \<and> fst (HasNext (snd ?n) (HasNext_now r))")
      case True
      then have "force (snd (HasNext (snd ?n) (HasNext_now r)))
          \<or> count (snd (HasNext (snd ?n) (HasNext_now r)))
              < Min_tries (strategy (snd (HasNext (snd ?n) (HasNext_now r))))"
        by (simp add: HasNext_true_bound)
      from Cons.IH [OF this] True Inr res entered show ?thesis
        by (simp add: Let_def)
    next
      case False
      with Inr res entered show ?thesis
        by (auto simp add: Let_def)
    qed
  qed
qed

text \<open>
  C10. \<^verbatim>\<open>GetResponse\<close> never reaches \<^verbatim>\<open>panic("unreachable")\<close>, whatever the clock and the network do
  and however many rounds are looked at: the first \<^verbatim>\<open>Next\<close> finds \<^verbatim>\<open>force\<close> set by \<^verbatim>\<open>Start\<close>, and
  a round continues the loop only after \<^verbatim>\<open>HasNext\<close> answered true, which binds the \<^verbatim>\<open>Next\<close> that
  follows. With at least one round listed and \<^verbatim>\<open>prepare\<close> returning no error, the body of the
  loop runs: the outcome is then decided by \<^verbatim>\<open>run\<close> on the first round.
\<close>

theorem GetResponse_unreachable:
  "GetResponse lb self p date started rs \<noteq> Panicked Unreachable
   \<and> GetResponse_loop lb s3 req (Start strat started) rs \<noteq> Panicked Unreachable
   \<and> GetResponse_loop lb s3 req (Start strat started) (r # rs) =
       (case run lb (Do_answer r) s3 req False of
          Inl pn \<Rightarrow> Panicked pn
        | Inr (req', resp, err) \<Rightarrow>
            if shouldRetry err
                 \<and> fst (HasNext (snd (Next (Start strat started) (Next_now r) (Next_woken r)))
                          (HasNext_now r))
            then GetResponse_loop lb s3 req'
                   (snd (HasNext (snd (Next (Start strat started) (Next_now r) (Next_woken r)))
                          (HasNext_now r))) rs
            else if err \<noteq> None then Returned None err
            else Returned resp None)"
proof (intro conjI)
  have started: "force (Start strat started) \<or> count (Start strat started)
      < Min_tries (strategy (Start strat started))" for strat
    by (simp add: Start_def)
  show "GetResponse_loop lb s3 req (Start strat started) rs \<noteq> Panicked Unreachable"
    using started by (rule GetResponse_loop_bound)
  show "GetResponse lb self p date started rs \<noteq> Panicked Unreachable"
    using GetResponse_loop_bound [OF started [of attempts]]
    by (simp add: GetResponse_def Let_def split: option.splits)
  have "fst (Next (Start strat started) (Next_now r) (Next_woken r))"
    using started by (rule Next_bound)
  then show "GetResponse_loop lb s3 req (Start strat started) (r # rs) =
       (case run lb (Do_answer r) s3 req False of
          Inl pn \<Rightarrow> Panicked pn
        | Inr (req', resp, err) \<Rightarrow>
            if shouldRetry err
                 \<and> fst (HasNext (snd (Next (Start strat started) (Next_now r) (Next_woken r)))
                          (HasNext_now r))
            then GetResponse_loop lb s3 req'
                   (snd (HasNext (snd (Next (Start strat started) (Next_now r) (Next_woken r)))
                          (HasNext_now r))) rs
            else if err \<noteq> None then Returned None err
            else Returned resp None)"
    by (simp add: Let_def split: sum.splits prod.splits)
qed

subsection \<open>Two runs of \<^verbatim>\<open>GetResponse\<close>\<close>

text \<open>A retryable error in the first round, the object in the second.\<close>

lemma GetResponse_retries_then_returns:
  "GetResponse example_lib example_bucket ''key'' ''Sat, 31 Oct 2026 06:00:00 UTC'' 0
     [failing_round 0, succeeding_round 1000000000] = Returned (Some found) None"
  by code_simp

text \<open>
  Retryable errors only, two seconds apart: after the fifth round the minimum is met and the
  budget of five seconds is used up, \<^verbatim>\<open>HasNext\<close> answers false and the error is returned.
\<close>

lemma GetResponse_gives_up_with_error:
  "GetResponse example_lib example_bucket ''key'' ''Sat, 31 Oct 2026 06:00:00 UTC'' 0
     [failing_round 0, failing_round 2000000000, failing_round 4000000000,
      failing_round 6000000000, failing_round 8000000000, failing_round 10000000000] =
   Returned None (Some (S3Error \<lparr>Error_StatusCode = 500, Code = ''InternalError'',
                                  Message = ''500 Internal Server Error'', RequestId = ''''\<rparr>))"
  by code_simp

end
